theory Spec2Isabelle
  imports Main
begin

section \<open>DocMate: the recording, transcription and note-generation session\<close>

text \<open>
  The application is one React component, \<^verbatim>\<open>App\<close> in \<^verbatim>\<open>src/App.tsx\<close>. Its state
  hooks and refs, together with the platform objects its handlers drive (the media
  recorder, the speech recognizer, the timers, the clipboard and the completion
  endpoint), form one record. Every handler of the component is a function from
  state to state. An asynchronous handler is modelled piece by piece, one function for
  each stretch of code that runs in one turn of the event loop: the call up to the
  first \<^verbatim>\<open>await\<close>, and what runs each time the awaited promise or stream answers. Other
  handlers can run between two pieces. What the platform answers (a rejected
  permission request, a thrown exception, a chunk of the completion stream) is an
  argument of the piece it resumes. Console output is not modelled.
\<close>

subsection \<open>Strings\<close>

text \<open>
  Text is a \<^typ>\<open>string\<close>; a character stands for a code unit below 256. In that range
  the characters that \<^verbatim>\<open>String.prototype.trim\<close> strips are tab, line feed, vertical tab,
  form feed, carriage return, space and the no-break space.
\<close>

definition is_space :: "char \<Rightarrow> bool" where
  "is_space c \<longleftrightarrow>
     c \<in> set [CHR 0x09, CHR 0x0A, CHR 0x0B, CHR 0x0C, CHR 0x0D, CHR 0x20, CHR 0xA0]"

definition trim :: "string \<Rightarrow> string" where
  "trim t = rev (dropWhile is_space (rev (dropWhile is_space t)))"

subsection \<open>Platform objects\<close>

text \<open>\<^verbatim>\<open>MediaRecorder.state\<close>.\<close>

datatype recorder_state = Inactive | Recording | Paused

text \<open>
  The \<^verbatim>\<open>SpeechRecognition\<close> object behind \<^verbatim>\<open>recognitionRef\<close>: the three properties
  the mount effect sets, and whether the component's last call on it was \<^verbatim>\<open>start()\<close>
  (\<open>started\<close>) rather than \<^verbatim>\<open>stop()\<close>.
\<close>

record recognizer =
  continuous :: bool
  interimResults :: bool
  lang :: string
  started :: bool

text \<open>
  One entry of \<^verbatim>\<open>event.results\<close>: the text of its first alternative
  (\<^verbatim>\<open>results[i][0].transcript\<close>) and its \<^verbatim>\<open>isFinal\<close> flag.
\<close>

record speech_result =
  r_transcript :: string
  r_isFinal :: bool

record result_event =
  resultIndex :: nat
  results :: "speech_result list"

text \<open>
  Handles returned by \<^verbatim>\<open>setInterval\<close> and \<^verbatim>\<open>setTimeout\<close>. They are positive numbers,
  hence truthy in the test \<^verbatim>\<open>if (intervalRef.current)\<close>.
\<close>

datatype timer_id = TimerId nat

text \<open>The audio constraints passed to \<^verbatim>\<open>getUserMedia\<close>.\<close>

record capture_constraints =
  echoCancellation :: bool
  noiseSuppression :: bool
  sampleRate :: nat

text \<open>
  The argument of \<^verbatim>\<open>groq.chat.completions.create\<close>. The single message has role
  \<^verbatim>\<open>user\<close>; the two sampling parameters are kept as the decimal literals of the source.
\<close>

record completion_request =
  rq_model :: string
  rq_content :: string
  rq_temperature :: string
  rq_max_tokens :: nat
  rq_top_p :: string
  rq_stream :: bool

subsection \<open>The component's state\<close>

text \<open>
  The seven state hooks, the four refs (for \<^verbatim>\<open>mediaRecorderRef\<close> the state of the
  recorder it points to, for \<^verbatim>\<open>audioChunksRef\<close> the sizes of the collected blobs), and
  the platform: the registered intervals, the pending timeouts with their delay in
  milliseconds, the next timer handle, the texts written to the clipboard, the
  completion requests sent and the capture requests made.
\<close>

record app =
  isRecording :: bool
  transcript :: string
  "notes" :: string
  status :: string
  isLoading :: bool
  recordingTime :: nat
  isTranscribing :: bool
  mediaRecorderRef :: "recorder_state option"
  audioChunksRef :: "nat list"
  recognitionRef :: "recognizer option"
  intervalRef :: "timer_id option"
  intervals :: "timer_id list"
  timeouts :: "(timer_id \<times> nat) list"
  next_timer :: nat
  clipboard_writes :: "string list"
  requests :: "completion_request list"
  capture_requests :: "capture_constraints list"

text \<open>
  The initial values of the hooks and refs, and the mount effect: a recognizer is
  created and configured only when the browser provides \<^verbatim>\<open>SpeechRecognition\<close> or
  \<^verbatim>\<open>webkitSpeechRecognition\<close>.
\<close>

definition mount :: "bool \<Rightarrow> app" where
  "mount has_speech_recognition =
     \<lparr> isRecording = False, transcript = '''', notes = '''', status = ''Ready to record'',
       isLoading = False, recordingTime = 0, isTranscribing = False,
       mediaRecorderRef = None, audioChunksRef = [],
       recognitionRef =
         (if has_speech_recognition
          then Some \<lparr> continuous = True, interimResults = True, lang = ''en-US'',
                      started = False \<rparr>
          else None),
       intervalRef = None, intervals = [], timeouts = [], next_timer = 1,
       clipboard_writes = [], requests = [], capture_requests = [] \<rparr>"

subsection \<open>Recognizer callbacks\<close>

text \<open>
  The loop of \<^verbatim>\<open>onresult\<close>: from \<^verbatim>\<open>event.resultIndex\<close> up to the end of
  \<^verbatim>\<open>event.results\<close>, the text of a final entry and one space are appended to
  \<^verbatim>\<open>finalTranscript\<close>.
\<close>

function onresult_loop :: "speech_result list \<Rightarrow> nat \<Rightarrow> string \<Rightarrow> string" where
  "onresult_loop rs i finalTranscript =
     (if i < length rs
      then (let transcriptPart = r_transcript (rs ! i)
            in onresult_loop rs (Suc i)
                 (if r_isFinal (rs ! i) then finalTranscript @ transcriptPart @ '' ''
                  else finalTranscript))
      else finalTranscript)"
  by pat_completeness auto
termination
  by (relation "measure (\<lambda>(rs, i, finalTranscript). length rs - i)") auto

declare onresult_loop.simps [simp del]

definition onresult :: "result_event \<Rightarrow> app \<Rightarrow> app" where
  "onresult event s =
     s\<lparr>transcript := transcript s @ onresult_loop (results event) (resultIndex event) ''''\<rparr>"

definition onerror :: "string \<Rightarrow> app \<Rightarrow> app" where
  "onerror err s = s\<lparr>status := ''Transcription error: '' @ err, isTranscribing := False\<rparr>"

definition onend :: "app \<Rightarrow> app" where
  "onend s = s\<lparr>isTranscribing := False, status := ''Transcription complete''\<rparr>"

subsection \<open>Recording\<close>

text \<open>\<^verbatim>\<open>recognitionRef.current.stop()\<close> behind its null test.\<close>

definition recognition_stop :: "app \<Rightarrow> app" where
  "recognition_stop s =
     (case recognitionRef s of
        None \<Rightarrow> s
      | Some r \<Rightarrow> s\<lparr>recognitionRef := Some (r\<lparr>started := False\<rparr>)\<rparr>)"

text \<open>The two callbacks that \<^verbatim>\<open>startRecording\<close> installs on the recorder.\<close>

definition ondataavailable :: "nat \<Rightarrow> app \<Rightarrow> app" where
  "ondataavailable sz s =
     (if sz > 0 then s\<lparr>audioChunksRef := audioChunksRef s @ [sz]\<rparr> else s)"

definition onstop :: "app \<Rightarrow> app" where
  "onstop s = recognition_stop (s\<lparr>status := ''Recording saved. Starting transcription...''\<rparr>)"

text \<open>
  \<^verbatim>\<open>startRecording\<close> up to its \<^verbatim>\<open>await\<close>: the call of \<^verbatim>\<open>getUserMedia\<close>. The rest of
  the function, \<open>startRecording\<close> below, runs when the promise settles.
\<close>

definition startRecording_call :: "app \<Rightarrow> app" where
  "startRecording_call s =
     s\<lparr>capture_requests := capture_requests s @
         [\<lparr> echoCancellation = True, noiseSuppression = True, sampleRate = 44100 \<rparr>]\<rparr>"

text \<open>
  The first platform call of the \<^verbatim>\<open>try\<close> block of \<^verbatim>\<open>startRecording\<close> that fails, if
  any: the promise of \<^verbatim>\<open>getUserMedia\<close> rejects (permission denied, no capture device),
  or one of the later calls throws.
\<close>

datatype platform_fault =
    GetUserMediaRejects
  | MediaRecorderCtorThrows
  | MediaRecorderStartThrows
  | RecognitionStartThrows
  | NoFault

text \<open>The \<^verbatim>\<open>catch\<close> block of \<^verbatim>\<open>startRecording\<close>.\<close>

definition start_caught :: "app \<Rightarrow> app" where
  "start_caught s =
     s\<lparr>status := ''Error: Could not access microphone. Please check permissions.''\<rparr>"

text \<open>\<^verbatim>\<open>intervalRef.current = setInterval(..., 1000)\<close>.\<close>

definition start_timer :: "app \<Rightarrow> app" where
  "start_timer s =
     s\<lparr>intervals := intervals s @ [TimerId (next_timer s)],
       intervalRef := Some (TimerId (next_timer s)),
       next_timer := Suc (next_timer s)\<rparr>"

definition startRecording :: "platform_fault \<Rightarrow> app \<Rightarrow> app" where
  "startRecording fault s =
     (if fault = GetUserMediaRejects \<or> fault = MediaRecorderCtorThrows then start_caught s
      else
        let s1 = s\<lparr>mediaRecorderRef := Some Inactive, audioChunksRef := []\<rparr> in
        if fault = MediaRecorderStartThrows then start_caught s1
        else
          let s2 = s1\<lparr>mediaRecorderRef := Some Recording,
                      isRecording := True,
                      recordingTime := 0,
                      transcript := '''',
                      notes := '''',
                      status := ''Recording in progress...''\<rparr> in
          (case recognitionRef s2 of
             None \<Rightarrow> start_timer s2
           | Some r \<Rightarrow>
               if fault = RecognitionStartThrows then start_caught s2
               else start_timer
                      (s2\<lparr>recognitionRef := Some (r\<lparr>started := True\<rparr>),
                          isTranscribing := True\<rparr>)))"

definition stopRecording :: "app \<Rightarrow> app" where
  "stopRecording s =
     (if mediaRecorderRef s = Some Recording
      then
        let s1 = s\<lparr>mediaRecorderRef := Some Inactive, isRecording := False\<rparr>;
            s2 = (case intervalRef s1 of
                    None \<Rightarrow> s1
                  | Some t \<Rightarrow> s1\<lparr>intervals := removeAll t (intervals s1),
                                 intervalRef := None\<rparr>);
            s3 = recognition_stop s2
        in s3\<lparr>status := ''Processing recording...''\<rparr>
      else s)"

text \<open>
  The callback of the interval with handle \<open>t\<close>; the platform calls it only while
  the interval is registered.
\<close>

definition tick :: "timer_id \<Rightarrow> app \<Rightarrow> app" where
  "tick t s = (if t \<in> set (intervals s) then s\<lparr>recordingTime := recordingTime s + 1\<rparr> else s)"


subsection \<open>Note generation\<close>

text \<open>
  The two places the guard of \<^verbatim>\<open>generateClinicalNotes\<close> looks for a credential:
  \<^verbatim>\<open>import.meta.env.VITE_GROQ_API_KEY\<close> and \<^verbatim>\<open>groq.apiKey\<close>. A value is falsy when it
  is undefined or the empty string.
\<close>

record credentials =
  env_key :: "string option"
  client_key :: "string option"

definition falsy :: "string option \<Rightarrow> bool" where
  "falsy k \<longleftrightarrow> k = None \<or> k = Some ''''"

text \<open>
  The template literal \<^verbatim>\<open>clinicalPrompt\<close>. The three characters between \<^verbatim>\<open>doctor\<close>
  and \<^verbatim>\<open>patient\<close>, a dash that the source file holds mis-decoded, are written by
  their Windows-1252 codes.
\<close>

definition clinicalPrompt :: "string \<Rightarrow> string" where
  "clinicalPrompt t =
     ''Convert doctor'' @ [CHR 0xE2, CHR 0x80, CHR 0x93] @
     ''patient transcripts into clinical notes in SOAP format (Subjective, Objective, Assessment, Plan).\<newline>'' @
     ''Always output in English. Detect and translate if input is in another language, and note the original language.\<newline>'' @
     ''Summarize symptoms, history, exam findings, assessment, and plan. Leave space for doctor to refine Assessment/Plan.\<newline>'' @
     ''If past consultations are mentioned, include a Consultation Pattern Summary (recurring issues, changes, response to treatment).\<newline>'' @
     ''Keep tone concise, clinical, legally compliant. Flag uncertainties with <uncertain>.\<newline>'' @
     ''Remove all personal information.\<newline>'' @
     ''\<newline>'' @
     ''Here is the full conversation transcribed between the doctor and patient:\<newline>'' @
     t"

definition create_params :: "string \<Rightarrow> completion_request" where
  "create_params prompt =
     \<lparr> rq_model = ''openai/gpt-oss-20b'', rq_content = prompt, rq_temperature = ''0.3'',
       rq_max_tokens = 4096, rq_top_p = ''0.95'', rq_stream = True \<rparr>"

text \<open>
  A chunk of the completion stream is the value of
  \<^verbatim>\<open>chunk.choices[0]?.delta?.content\<close>, \<open>None\<close> when a link of that chain is
  undefined or null.
\<close>

type_synonym chunk = "string option"

text \<open>
  The statements between the two guards and the \<^verbatim>\<open>await\<close>: the status, the loading
  flag, the cleared notes, and the request, whose prompt holds the transcript of this
  moment.
\<close>

definition gen_open :: "app \<Rightarrow> app" where
  "gen_open s =
     s\<lparr>status := ''Generating clinical notes...'',
       isLoading := True,
       notes := '''',
       requests := requests s @ [create_params (clinicalPrompt (transcript s))]\<rparr>"

text \<open>
  The text of a chunk, \<^verbatim>\<open>chunk.choices[0]?.delta?.content || ''\<close>, and one iteration
  of the \<^verbatim>\<open>for await\<close> loop, which runs when the stream delivers a chunk.
\<close>

definition delta_content :: "chunk \<Rightarrow> string" where
  "delta_content c = (case c of None \<Rightarrow> '''' | Some t \<Rightarrow> t)"

definition gen_chunk :: "chunk \<Rightarrow> app \<Rightarrow> app" where
  "gen_chunk c s =
     (let content = delta_content c
      in if content \<noteq> '''' then s\<lparr>notes := notes s @ content\<rparr> else s)"

text \<open>
  The statement after the loop followed by \<^verbatim>\<open>finally\<close>, which runs when the stream
  ends; and \<^verbatim>\<open>catch\<close> followed by \<^verbatim>\<open>finally\<close>, which runs when opening the request fails
  or the stream throws.
\<close>

definition gen_success :: "app \<Rightarrow> app" where
  "gen_success s =
     s\<lparr>status := ''Clinical notes generated successfully!'', isLoading := False\<rparr>"

definition gen_failure :: "app \<Rightarrow> app" where
  "gen_failure s =
     s\<lparr>status := ''Error generating notes. Please check your API key and try again.'',
       isLoading := False\<rparr>"

text \<open>
  \<^verbatim>\<open>generateClinicalNotes\<close> up to its \<^verbatim>\<open>await\<close>: the two guards and the opening of the
  request. The rest of the function is \<open>gen_chunk\<close>, \<open>gen_success\<close> and
  \<open>gen_failure\<close>, each run when the stream answers.
\<close>

definition generateClinicalNotes :: "credentials \<Rightarrow> app \<Rightarrow> app" where
  "generateClinicalNotes cr s =
     (if trim (transcript s) = ''''
      then s\<lparr>status := ''Please record and transcribe audio first.''\<rparr>
      else if falsy (env_key cr) \<and> falsy (client_key cr)
      then s\<lparr>status := ''Error: Please configure your Groq API key in environment variables.''\<rparr>
      else gen_open s)"

subsection \<open>Clipboard\<close>

text \<open>
  \<^verbatim>\<open>copyToClipboard\<close>, at the moment the promise of \<^verbatim>\<open>writeText\<close> settles. Only a
  fulfilled promise has a continuation: the status line, and a timeout of 2000
  milliseconds. The callback of every timeout of the component is
  \<^verbatim>\<open>setStatus('Ready')\<close>.
\<close>

datatype clipboard_result = Written | WriteRejected

definition copyToClipboard :: "string \<Rightarrow> string \<Rightarrow> clipboard_result \<Rightarrow> app \<Rightarrow> app" where
  "copyToClipboard text type r s =
     (case r of
        WriteRejected \<Rightarrow> s
      | Written \<Rightarrow>
          s\<lparr>clipboard_writes := clipboard_writes s @ [text],
            status := type @ '' copied to clipboard!'',
            timeouts := timeouts s @ [(TimerId (next_timer s), 2000)],
            next_timer := Suc (next_timer s)\<rparr>)"

definition timeout_fires :: "timer_id \<Rightarrow> app \<Rightarrow> app" where
  "timeout_fires t s =
     (if t \<in> fst ` set (timeouts s)
      then s\<lparr>timeouts := filter (\<lambda>p. fst p \<noteq> t) (timeouts s), status := ''Ready''\<rparr>
      else s)"

subsection \<open>The two buttons\<close>

text \<open>
  The record button has \<^verbatim>\<open>onClick={isRecording ? stopRecording : startRecording}\<close> and
  \<^verbatim>\<open>disabled={isLoading}\<close>; the generate button has
  \<^verbatim>\<open>onClick={generateClinicalNotes}\<close> and
  \<^verbatim>\<open>disabled={isLoading || !transcript.trim() || isRecording}\<close>. A click on a disabled
  button calls no handler. A click on an enabled button runs its handler up to the
  first \<^verbatim>\<open>await\<close>: the tests of the button are made on the state of the click, not on
  the state in which the rest of the handler runs.
\<close>

definition record_button :: "app \<Rightarrow> app" where
  "record_button s =
     (if isLoading s then s
      else if isRecording s then stopRecording s
      else startRecording_call s)"

definition generate_button :: "credentials \<Rightarrow> app \<Rightarrow> app" where
  "generate_button cr s =
     (if isLoading s \<or> trim (transcript s) = '''' \<or> isRecording s then s
      else generateClinicalNotes cr s)"

subsection \<open>Events\<close>

text \<open>
  Everything that can run on the event loop once the component is mounted: the
  handlers called directly, the clicks on the two buttons, the pieces of the
  asynchronous handlers that run when the platform answers (\<open>StartRecording\<close> is the
  settlement of a permission request; \<open>GenChunk\<close>, \<open>GenEndOfStream\<close> and
  \<open>GenThrows\<close> are the answers of a completion stream), and the callbacks. The
  recognizer's callbacks exist only when a recognizer was created, the recorder's
  only once a recorder was.
\<close>

datatype event =
    StartRecording platform_fault
  | StopRecording
  | OnResult result_event
  | OnError string
  | OnEnd
  | OnDataAvailable nat
  | OnStop
  | Tick timer_id
  | Generate credentials
  | CopyToClipboard string string clipboard_result
  | TimeoutFires timer_id
  | ClickRecord
  | ClickGenerate credentials
  | GenChunk chunk
  | GenEndOfStream
  | GenThrows

fun step :: "event \<Rightarrow> app \<Rightarrow> app" where
  "step (StartRecording fault) s = startRecording fault s"
| "step StopRecording s = stopRecording s"
| "step (OnResult e) s = (if recognitionRef s = None then s else onresult e s)"
| "step (OnError err) s = (if recognitionRef s = None then s else onerror err s)"
| "step OnEnd s = (if recognitionRef s = None then s else onend s)"
| "step (OnDataAvailable sz) s = (if mediaRecorderRef s = None then s else ondataavailable sz s)"
| "step OnStop s = (if mediaRecorderRef s = None then s else onstop s)"
| "step (Tick t) s = tick t s"
| "step (Generate cr) s = generateClinicalNotes cr s"
| "step (CopyToClipboard text type r) s = copyToClipboard text type r s"
| "step (TimeoutFires t) s = timeout_fires t s"
| "step ClickRecord s = record_button s"
| "step (ClickGenerate cr) s = generate_button cr s"
| "step (GenChunk c) s = gen_chunk c s"
| "step GenEndOfStream s = gen_success s"
| "step GenThrows s = gen_failure s"

fun run :: "event list \<Rightarrow> app \<Rightarrow> app" where
  "run [] s = s"
| "run (e # es) s = run es (step e s)"


subsection \<open>What a recognition event delivers\<close>

text \<open>
  An event delivers the entries of \<^verbatim>\<open>results\<close> from \<^verbatim>\<open>resultIndex\<close> on. The transcript
  the specification asks for after a sequence of events: of all delivered entries, in
  order, those marked final, each followed by one space.
\<close>

definition delivered :: "result_event \<Rightarrow> speech_result list" where
  "delivered e = drop (resultIndex e) (results e)"

definition final_segments :: "result_event list \<Rightarrow> string" where
  "final_segments evs =
     concat (map (\<lambda>r. r_transcript r @ '' '') (filter r_isFinal (concat (map delivered evs))))"

subsection \<open>Events that begin a recording\<close>

fun is_start :: "event \<Rightarrow> bool" where
  "is_start (StartRecording fault) = True"
| "is_start e = False"

text \<open>
  The recognizer as the mount effect leaves it, in a browser that has one
  (\<open>has_speech_recognition\<close>) or has none.
\<close>

definition recognizer_configured :: "bool \<Rightarrow> app \<Rightarrow> bool" where
  "recognizer_configured has_speech_recognition s =
     (case recognitionRef s of
        None \<Rightarrow> \<not> has_speech_recognition
      | Some r \<Rightarrow> has_speech_recognition \<and> continuous r \<and> interimResults r \<and> lang r = ''en-US'')"

subsection \<open>Sessions used as examples\<close>

definition demo_credentials :: credentials where
  "demo_credentials = \<lparr> env_key = Some ''gsk_demo'', client_key = Some ''gsk_demo'' \<rparr>"

definition no_credentials :: credentials where
  "no_credentials = \<lparr> env_key = None, client_key = Some '''' \<rparr>"

definition chest_pain_event :: result_event where
  "chest_pain_event =
     \<lparr> resultIndex = 0,
       results = [\<lparr> r_transcript = ''chest pain'', r_isFinal = True \<rparr>,
                  \<lparr> r_transcript = ''two days'', r_isFinal = False \<rparr>] \<rparr>"

text \<open>A recording in progress with one final segment, the same after the stop button.\<close>

definition recording_session :: app where
  "recording_session = onresult chest_pain_event (startRecording NoFault (mount True))"

definition stopped_session :: app where
  "stopped_session = stopRecording recording_session"

text \<open>
  By clicks and platform answers alone. A recording was made and stopped, and its
  transcript is ready.
\<close>

definition ready_session :: app where
  "ready_session =
     run [ClickRecord, StartRecording NoFault, OnResult chest_pain_event, ClickRecord]
       (mount True)"

text \<open>
  From there the record button was clicked again, and the permission request is not
  yet answered; the generate button, still enabled, was clicked, and the stream has
  delivered its first fragment.
\<close>

definition generating_session :: app where
  "generating_session =
     run [ClickRecord, ClickGenerate demo_credentials, GenChunk (Some ''Subjective: '')]
       ready_session"

text \<open>
  In a browser without speech recognition, \<^verbatim>\<open>startRecording\<close> was called twice before
  either permission request was answered, and both were granted.
\<close>

definition restarted_session :: app where
  "restarted_session = startRecording NoFault (startRecording NoFault (mount False))"

text \<open>The transcript was copied, and within two seconds the generation was started.\<close>

definition copied_session :: app where
  "copied_session = copyToClipboard ''chest pain '' ''Transcript'' Written stopped_session"

definition copied_then_generating :: app where
  "copied_then_generating = generateClinicalNotes demo_credentials copied_session"

section \<open>Properties\<close>

subsection \<open>Auxiliary facts\<close>

lemma trim_empty_iff: "trim t = '''' \<longleftrightarrow> (\<forall>c \<in> set t. is_space c)"
proof
  assume "trim t = ''''"
  then have all: "\<forall>x \<in> set (dropWhile is_space t). is_space x"
    by (simp add: trim_def)
  have "dropWhile is_space t = []"
  proof (rule ccontr)
    assume ne: "dropWhile is_space t \<noteq> []"
    then have "\<not> is_space (hd (dropWhile is_space t))"
      by (rule hd_dropWhile)
    moreover from ne have "hd (dropWhile is_space t) \<in> set (dropWhile is_space t)"
      by simp
    ultimately show False
      using all by blast
  qed
  then show "\<forall>c \<in> set t. is_space c"
    by simp
next
  assume "\<forall>c \<in> set t. is_space c"
  then have "dropWhile is_space t = []"
    by simp
  then show "trim t = ''''"
    by (simp add: trim_def del: dropWhile_eq_Nil_conv)
qed

lemma onresult_loop_drop:
  "onresult_loop rs i acc =
     acc @ concat (map (\<lambda>r. r_transcript r @ '' '') (filter r_isFinal (drop i rs)))"
proof (induction rs i acc rule: onresult_loop.induct)
  case (1 rs i acc)
  show ?case
  proof (cases "i < length rs")
    case True
    then have d: "drop i rs = rs ! i # drop (Suc i) rs"
      by (simp add: Cons_nth_drop_Suc)
    from True show ?thesis
      by (subst onresult_loop.simps) (simp add: "1.IH" d Let_def)
  next
    case False
    then show ?thesis
      by (subst onresult_loop.simps) simp
  qed
qed

lemma final_segments_Cons:
  "final_segments (e # evs) = final_segments [e] @ final_segments evs"
  by (simp add: final_segments_def)

lemma transcript_onresult: "transcript (onresult e s) = transcript s @ final_segments [e]"
  by (simp add: onresult_def onresult_loop_drop final_segments_def delivered_def)

lemma fold_onresult: "transcript (fold onresult evs s) = transcript s @ final_segments evs"
proof (induction evs arbitrary: s)
  case Nil
  show ?case
    by (simp add: final_segments_def)
next
  case (Cons e evs)
  show ?case
    by (simp add: Cons.IH transcript_onresult final_segments_Cons [of e evs])
qed

lemma startRecording_rejected:
  "startRecording GetUserMediaRejects s =
     s\<lparr>status := ''Error: Could not access microphone. Please check permissions.''\<rparr>"
  by (simp add: startRecording_def start_caught_def)

lemma transcript_stopped_session: "transcript stopped_session = ''chest pain ''"
  by (simp add: stopped_session_def recording_session_def stopRecording_def
      recognition_stop_def startRecording_def start_timer_def mount_def onresult_def
      onresult_loop_drop chest_pain_event_def)

lemma trim_Nil: "trim '''' = ''''"
  by (simp add: trim_def)

lemma trim_chest_pain: "trim ''chest pain '' = ''chest pain''"
  by (simp add: trim_def is_space_def)

subsection \<open>Folding recognition results\<close>

text \<open>
  C1. For every sequence of recognizer result events, the transcript after the
  \<^verbatim>\<open>onresult\<close> handler has run on each of them in delivery order is the transcript
  before, followed by the text of every delivered entry marked final, in delivery
  order, each with one trailing space; entries that are not final contribute nothing,
  wherever they stand. A recording starts with an empty transcript, so within one
  recording the transcript is exactly that concatenation.
\<close>

theorem transcript_is_final_segments:
  "transcript (fold onresult evs s) = transcript s @ final_segments evs \<and>
   transcript (fold onresult evs (startRecording NoFault s)) = final_segments evs"
proof -
  have "transcript (startRecording NoFault s) = ''''"
    by (simp add: startRecording_def start_timer_def Let_def split: option.split)
  then show ?thesis
    by (simp add: fold_onresult)
qed

subsection \<open>A failed permission request\<close>

text \<open>
  C7. When the capture request of \<^verbatim>\<open>startRecording\<close> is rejected (permission denied or
  no capture device), \<^verbatim>\<open>isRecording\<close> keeps its value, so a session that was idle
  stays idle; the status is the microphone error message; and the recognizer is not
  started: the recognizer, the transcribing flag, the recorder and the timers are as
  before.
\<close>

theorem startRecording_rejected_stays_idle:
  "isRecording (startRecording GetUserMediaRejects s) = isRecording s \<and>
   status (startRecording GetUserMediaRejects s) =
     ''Error: Could not access microphone. Please check permissions.'' \<and>
   recognitionRef (startRecording GetUserMediaRejects s) = recognitionRef s \<and>
   isTranscribing (startRecording GetUserMediaRejects s) = isTranscribing s \<and>
   mediaRecorderRef (startRecording GetUserMediaRejects s) = mediaRecorderRef s \<and>
   intervals (startRecording GetUserMediaRejects s) = intervals s"
  by (simp add: startRecording_rejected)

text \<open>
  C10. When the capture request of \<^verbatim>\<open>startRecording\<close> is rejected, the transcript, the
  generated notes and the elapsed seconds of the previous session are unchanged: the
  reset happens only after the capture stream was obtained.
\<close>

theorem startRecording_rejected_keeps_session:
  "transcript (startRecording GetUserMediaRejects s) = transcript s \<and>
   notes (startRecording GetUserMediaRejects s) = notes s \<and>
   recordingTime (startRecording GetUserMediaRejects s) = recordingTime s"
  by (simp add: startRecording_rejected)

subsection \<open>Facts about event sequences\<close>

lemma generateClinicalNotes_frame:
  "intervals (generateClinicalNotes cr s) = intervals s"
  "recordingTime (generateClinicalNotes cr s) = recordingTime s"
  "timeouts (generateClinicalNotes cr s) = timeouts s"
  "recognitionRef (generateClinicalNotes cr s) = recognitionRef s"
  by (simp_all add: generateClinicalNotes_def gen_open_def)

lemma gen_pieces_frame:
  "intervals (gen_chunk c s) = intervals s"
  "recordingTime (gen_chunk c s) = recordingTime s"
  "timeouts (gen_chunk c s) = timeouts s"
  "recognitionRef (gen_chunk c s) = recognitionRef s"
  "intervals (gen_success s) = intervals s"
  "recordingTime (gen_success s) = recordingTime s"
  "timeouts (gen_success s) = timeouts s"
  "recognitionRef (gen_success s) = recognitionRef s"
  "intervals (gen_failure s) = intervals s"
  "recordingTime (gen_failure s) = recordingTime s"
  "timeouts (gen_failure s) = timeouts s"
  "recognitionRef (gen_failure s) = recognitionRef s"
  by (simp_all add: gen_chunk_def gen_success_def gen_failure_def Let_def)

lemma generate_button_frame:
  "intervals (generate_button cr s) = intervals s"
  "recordingTime (generate_button cr s) = recordingTime s"
  "timeouts (generate_button cr s) = timeouts s"
  "recognitionRef (generate_button cr s) = recognitionRef s"
  by (simp_all add: generate_button_def generateClinicalNotes_frame)

lemma startRecording_frame:
  "timeouts (startRecording fault s) = timeouts s"
  by (simp add: startRecording_def start_caught_def start_timer_def Let_def
      split: option.split)

lemma stopRecording_frame:
  "timeouts (stopRecording s) = timeouts s"
  "recordingTime (stopRecording s) = recordingTime s"
  by (simp_all add: stopRecording_def recognition_stop_def Let_def split: option.split)

lemma stopRecording_no_intervals: "intervals s = [] \<Longrightarrow> intervals (stopRecording s) = []"
  by (simp add: stopRecording_def recognition_stop_def Let_def split: option.split)

lemma record_button_frame:
  "timeouts (record_button s) = timeouts s"
  "recordingTime (record_button s) = recordingTime s"
  "intervals s = [] \<Longrightarrow> intervals (record_button s) = []"
  by (simp_all add: record_button_def startRecording_call_def stopRecording_frame
      stopRecording_no_intervals)

lemma step_no_intervals:
  assumes "intervals s = []" and "\<not> is_start e"
  shows "intervals (step e s) = [] \<and> recordingTime (step e s) = recordingTime s"
proof (cases e)
  case (StartRecording fault)
  with assms show ?thesis by simp
next
  case StopRecording
  with assms show ?thesis
    by (simp add: stopRecording_def recognition_stop_def Let_def split: option.split)
next
  case (Generate cr)
  with assms show ?thesis by (simp add: generateClinicalNotes_frame)
next
  case (CopyToClipboard content kind r)
  with assms show ?thesis by (simp add: copyToClipboard_def split: clipboard_result.split)
next
  case ClickRecord
  with assms show ?thesis by (simp add: record_button_frame)
next
  case (ClickGenerate cr)
  with assms show ?thesis by (simp add: generate_button_frame)
qed (insert assms, simp_all add: onresult_def onerror_def onend_def ondataavailable_def
      onstop_def recognition_stop_def tick_def timeout_fires_def gen_pieces_frame
      split: option.split)

lemma run_no_intervals:
  assumes "intervals s = []" and "\<forall>e \<in> set evs. \<not> is_start e"
  shows "recordingTime (run evs s) = recordingTime s"
  using assms
proof (induction evs arbitrary: s)
  case Nil
  show ?case by simp
next
  case (Cons e evs)
  from Cons.prems have e: "\<not> is_start e" and rest: "\<forall>x \<in> set evs. \<not> is_start x"
    by simp_all
  from step_no_intervals [OF Cons.prems(1) e]
  have i: "intervals (step e s) = []" and r: "recordingTime (step e s) = recordingTime s"
    by simp_all
  from Cons.IH [OF i rest] r show ?case
    by simp
qed

lemma step_keeps_timeout:
  assumes "(t, d) \<in> set (timeouts s)" and "e \<noteq> TimeoutFires t"
  shows "(t, d) \<in> set (timeouts (step e s))"
proof (cases e)
  case (StartRecording fault)
  with assms show ?thesis by (simp add: startRecording_frame)
next
  case StopRecording
  with assms show ?thesis by (simp add: stopRecording_frame)
next
  case (Generate cr)
  with assms show ?thesis by (simp add: generateClinicalNotes_frame)
next
  case (CopyToClipboard content kind r)
  with assms show ?thesis by (simp add: copyToClipboard_def split: clipboard_result.split)
next
  case (TimeoutFires t')
  with assms have "t' \<noteq> t" by simp
  with assms TimeoutFires show ?thesis
    by (auto simp: timeout_fires_def)
next
  case ClickRecord
  with assms show ?thesis by (simp add: record_button_frame)
next
  case (ClickGenerate cr)
  with assms show ?thesis by (simp add: generate_button_frame)
qed (insert assms, simp_all add: onresult_def onerror_def onend_def ondataavailable_def
      onstop_def recognition_stop_def tick_def gen_pieces_frame split: option.split)

lemma run_keeps_timeout:
  assumes "(t, d) \<in> set (timeouts s)" and "TimeoutFires t \<notin> set evs"
  shows "(t, d) \<in> set (timeouts (run evs s))"
  using assms
proof (induction evs arbitrary: s)
  case Nil
  then show ?case by simp
next
  case (Cons e evs)
  from Cons.prems have "e \<noteq> TimeoutFires t" and rest: "TimeoutFires t \<notin> set evs"
    by auto
  with Cons.prems(1) have "(t, d) \<in> set (timeouts (step e s))"
    by (simp add: step_keeps_timeout)
  from Cons.IH [OF this rest] show ?case
    by simp
qed

lemma timeout_fires_pending:
  "(t, d) \<in> set (timeouts s) \<Longrightarrow> status (timeout_fires t s) = ''Ready''"
  by (force simp: timeout_fires_def)

lemma recognizer_configured_mount: "recognizer_configured b (mount b)"
  by (simp add: recognizer_configured_def mount_def)

lemma step_recognizer_configured:
  assumes "recognizer_configured b s"
  shows "recognizer_configured b (step e s)"
proof (cases e)
  case (StartRecording fault)
  with assms show ?thesis
    by (auto simp: recognizer_configured_def startRecording_def start_caught_def
        start_timer_def Let_def split: option.splits)
next
  case StopRecording
  with assms show ?thesis
    by (auto simp: recognizer_configured_def stopRecording_def recognition_stop_def Let_def
        split: option.splits)
next
  case (Generate cr)
  with assms show ?thesis
    by (simp add: recognizer_configured_def generateClinicalNotes_frame)
next
  case ClickRecord
  with assms show ?thesis
    by (auto simp: recognizer_configured_def record_button_def startRecording_call_def
        stopRecording_def recognition_stop_def Let_def split: option.splits)
next
  case (ClickGenerate cr)
  with assms show ?thesis
    by (simp add: recognizer_configured_def generate_button_frame)
next
  case (GenChunk c)
  with assms show ?thesis
    by (simp add: recognizer_configured_def gen_pieces_frame)
next
  case GenEndOfStream
  with assms show ?thesis
    by (simp add: recognizer_configured_def gen_pieces_frame)
next
  case GenThrows
  with assms show ?thesis
    by (simp add: recognizer_configured_def gen_pieces_frame)
next
  case (CopyToClipboard content kind r)
  with assms show ?thesis
    by (simp add: recognizer_configured_def copyToClipboard_def split: clipboard_result.split)
next
  case OnStop
  with assms show ?thesis
    by (auto simp: recognizer_configured_def onstop_def recognition_stop_def
        split: option.splits)
qed (insert assms, auto simp: recognizer_configured_def onresult_def onerror_def onend_def
      ondataavailable_def tick_def timeout_fires_def split: option.splits)

lemma run_recognizer_configured:
  "recognizer_configured b s \<Longrightarrow> recognizer_configured b (run evs s)"
  by (induction evs arbitrary: s) (simp_all add: step_recognizer_configured)

lemma recognitionRef_mounted:
  "recognitionRef (run evs (mount b)) =
     (if b then Some \<lparr> continuous = True, interimResults = True, lang = ''en-US'',
                        started = started (the (recognitionRef (run evs (mount b)))) \<rparr>
      else None)"
proof -
  have "recognizer_configured b (run evs (mount b))"
    by (simp add: run_recognizer_configured recognizer_configured_mount)
  then show ?thesis
    by (cases "recognitionRef (run evs (mount b))")
      (auto simp: recognizer_configured_def)
qed


subsection \<open>The example sessions, evaluated\<close>

lemma recording_session_eval:
  "recording_session =
     \<lparr> isRecording = True, transcript = ''chest pain '', notes = '''',
       status = ''Recording in progress...'', isLoading = False, recordingTime = 0,
       isTranscribing = True, mediaRecorderRef = Some Recording, audioChunksRef = [],
       recognitionRef = Some \<lparr> continuous = True, interimResults = True, lang = ''en-US'',
                               started = True \<rparr>,
       intervalRef = Some (TimerId 1), intervals = [TimerId 1], timeouts = [],
       next_timer = 2, clipboard_writes = [], requests = [], capture_requests = [] \<rparr>"
  by (simp add: recording_session_def startRecording_def start_timer_def mount_def
      onresult_def onresult_loop_drop chest_pain_event_def)

lemma stopped_session_eval:
  "stopped_session =
     \<lparr> isRecording = False, transcript = ''chest pain '', notes = '''',
       status = ''Processing recording...'', isLoading = False, recordingTime = 0,
       isTranscribing = True, mediaRecorderRef = Some Inactive, audioChunksRef = [],
       recognitionRef = Some \<lparr> continuous = True, interimResults = True, lang = ''en-US'',
                               started = False \<rparr>,
       intervalRef = None, intervals = [], timeouts = [],
       next_timer = 2, clipboard_writes = [], requests = [], capture_requests = [] \<rparr>"
  by (simp add: stopped_session_def recording_session_eval stopRecording_def
      recognition_stop_def)

lemma ready_session_eval:
  "ready_session =
     stopped_session
       \<lparr>capture_requests :=
          [\<lparr> echoCancellation = True, noiseSuppression = True, sampleRate = 44100 \<rparr>]\<rparr>"
  by (simp add: ready_session_def record_button_def startRecording_call_def
      startRecording_def start_timer_def mount_def onresult_def onresult_loop_drop
      chest_pain_event_def stopRecording_def recognition_stop_def stopped_session_eval)

lemma generating_session_eval:
  "generating_session =
     stopped_session
       \<lparr>status := ''Generating clinical notes...'', isLoading := True,
        notes := ''Subjective: '',
        requests := [create_params (clinicalPrompt ''chest pain '')],
        capture_requests :=
          [\<lparr> echoCancellation = True, noiseSuppression = True, sampleRate = 44100 \<rparr>,
           \<lparr> echoCancellation = True, noiseSuppression = True, sampleRate = 44100 \<rparr>]\<rparr>"
  by (simp add: generating_session_def ready_session_eval stopped_session_eval
      record_button_def startRecording_call_def generate_button_def
      generateClinicalNotes_def trim_chest_pain demo_credentials_def falsy_def gen_open_def
      gen_chunk_def delta_content_def)

lemma generating_session_trace:
  "run [ClickRecord, StartRecording NoFault, OnResult chest_pain_event, ClickRecord,
        ClickRecord, ClickGenerate demo_credentials, GenChunk (Some ''Subjective: '')]
     (mount True) = generating_session"
  by (simp add: generating_session_def ready_session_def)

lemma restarted_session_eval:
  "restarted_session =
     \<lparr> isRecording = True, transcript = '''', notes = '''',
       status = ''Recording in progress...'', isLoading = False, recordingTime = 0,
       isTranscribing = False, mediaRecorderRef = Some Recording, audioChunksRef = [],
       recognitionRef = None,
       intervalRef = Some (TimerId 2), intervals = [TimerId 1, TimerId 2], timeouts = [],
       next_timer = 3, clipboard_writes = [], requests = [], capture_requests = [] \<rparr>"
  by (simp add: restarted_session_def startRecording_def start_timer_def mount_def)

lemma copied_session_eval:
  "copied_session =
     stopped_session\<lparr>clipboard_writes := [''chest pain ''],
       status := ''Transcript copied to clipboard!'',
       timeouts := [(TimerId 2, 2000)], next_timer := 3\<rparr>"
  by (simp add: copied_session_def copyToClipboard_def stopped_session_eval)

lemma copied_then_generating_eval:
  "copied_then_generating =
     copied_session\<lparr>status := ''Generating clinical notes...'', isLoading := True,
       notes := '''',
       requests := [create_params (clinicalPrompt ''chest pain '')]\<rparr>"
  by (simp add: copied_then_generating_def generateClinicalNotes_def copied_session_eval
      stopped_session_eval trim_chest_pain demo_credentials_def falsy_def gen_open_def)

subsection \<open>The guards of the generation\<close>

text \<open>
  C2, as the specification states it, fails: \<^verbatim>\<open>generateClinicalNotes\<close> does not look at
  \<^verbatim>\<open>isRecording\<close>. Called during a recording that has a final segment, with a
  credential configured, it sends a request and sets the loading flag. And where a
  guard does refuse, the state is not unchanged: the status line is replaced.
\<close>

theorem generateClinicalNotes_runs_while_recording:
  "isRecording recording_session \<and>
   requests recording_session = [] \<and>
   requests (generateClinicalNotes demo_credentials recording_session) =
     [create_params (clinicalPrompt ''chest pain '')] \<and>
   isLoading (generateClinicalNotes demo_credentials recording_session) \<and>
   status (mount True) = ''Ready to record'' \<and>
   status (generateClinicalNotes demo_credentials (mount True)) =
     ''Please record and transcribe audio first.''"
  by (simp add: recording_session_eval generateClinicalNotes_def trim_chest_pain
      demo_credentials_def falsy_def gen_open_def mount_def trim_Nil)

text \<open>
  C2, amended. When the transcript is empty or consists of white space only,
  \<^verbatim>\<open>generateClinicalNotes\<close> sends no request and changes nothing but the status, which
  becomes the request to record first. When the transcript is not blank and no
  credential is configured, it sends no request and changes nothing but the status,
  which becomes the request to configure the key. The function has no guard on
  \<^verbatim>\<open>isRecording\<close>: that precondition is kept by the generate button, which is disabled
  during a recording, so that a click on it changes nothing and sends no request.
\<close>

theorem generateClinicalNotes_guards:
  "((\<forall>c \<in> set (transcript s). is_space c) \<longrightarrow>
      generateClinicalNotes cr s =
        s\<lparr>status := ''Please record and transcribe audio first.''\<rparr>) \<and>
   (\<not> (\<forall>c \<in> set (transcript s). is_space c) \<and> falsy (env_key cr) \<and> falsy (client_key cr) \<longrightarrow>
      generateClinicalNotes cr s =
        s\<lparr>status := ''Error: Please configure your Groq API key in environment variables.''\<rparr>) \<and>
   (isRecording s \<longrightarrow> generate_button cr s = s)"
  by (simp add: generateClinicalNotes_def generate_button_def trim_empty_iff)

theorem generateClinicalNotes_guards_witness:
  "generateClinicalNotes demo_credentials (mount True\<lparr>transcript := ''  ''\<rparr>) =
     mount True\<lparr>transcript := ''  '', status := ''Please record and transcribe audio first.''\<rparr> \<and>
   generateClinicalNotes no_credentials stopped_session =
     stopped_session
       \<lparr>status := ''Error: Please configure your Groq API key in environment variables.''\<rparr> \<and>
   isRecording recording_session \<and>
   generate_button demo_credentials recording_session = recording_session"
proof -
  have blank: "\<forall>c \<in> set (transcript (mount True\<lparr>transcript := ''  ''\<rparr>)). is_space c"
    by (simp add: is_space_def)
  have nonblank: "\<not> (\<forall>c \<in> set (transcript stopped_session). is_space c)"
    by (simp add: stopped_session_eval is_space_def)
  have nokey: "falsy (env_key no_credentials) \<and> falsy (client_key no_credentials)"
    by (simp add: no_credentials_def falsy_def)
  have rec: "isRecording recording_session"
    by (simp add: recording_session_eval)
  show ?thesis
    using blank nonblank nokey rec
      generateClinicalNotes_guards
        [of "mount True\<lparr>transcript := ''  ''\<rparr>" demo_credentials]
      generateClinicalNotes_guards [of stopped_session no_credentials]
      generateClinicalNotes_guards [of recording_session demo_credentials]
    by simp
qed

subsection \<open>Generation runs\<close>

text \<open>
  When nothing else runs between the opening of the request, the chunks and the end
  of the stream, the notes are the concatenation of the chunks' texts in delivery
  order, whether the stream ends or throws; the loading flag is cleared, the status is
  the success or the error message, and one request was sent.
\<close>

lemma run_append: "run (xs @ ys) s = run ys (run xs s)"
  by (induction xs arbitrary: s) simp_all

lemma run_gen_chunks:
  "run (map GenChunk cs) s = s\<lparr>notes := notes s @ concat (map delta_content cs)\<rparr>"
proof (induction cs arbitrary: s)
  case Nil
  show ?case by simp
next
  case (Cons c cs)
  show ?case
    by (simp add: Cons.IH gen_chunk_def Let_def)
qed

lemma uninterrupted_generation:
  assumes "trim (transcript s) \<noteq> ''''"
    and "\<not> (falsy (env_key cr) \<and> falsy (client_key cr))"
  shows "run (Generate cr # map GenChunk cs @ [GenEndOfStream]) s =
           s\<lparr>status := ''Clinical notes generated successfully!'', isLoading := False,
             notes := concat (map delta_content cs),
             requests := requests s @ [create_params (clinicalPrompt (transcript s))]\<rparr>"
    and "run (Generate cr # map GenChunk cs @ [GenThrows]) s =
           s\<lparr>status := ''Error generating notes. Please check your API key and try again.'',
             isLoading := False,
             notes := concat (map delta_content cs),
             requests := requests s @ [create_params (clinicalPrompt (transcript s))]\<rparr>"
proof -
  from assms have opened: "generateClinicalNotes cr s = gen_open s"
    by (auto simp: generateClinicalNotes_def)
  show "run (Generate cr # map GenChunk cs @ [GenEndOfStream]) s =
           s\<lparr>status := ''Clinical notes generated successfully!'', isLoading := False,
             notes := concat (map delta_content cs),
             requests := requests s @ [create_params (clinicalPrompt (transcript s))]\<rparr>"
    by (simp add: opened run_append run_gen_chunks gen_open_def gen_success_def)
  show "run (Generate cr # map GenChunk cs @ [GenThrows]) s =
           s\<lparr>status := ''Error generating notes. Please check your API key and try again.'',
             isLoading := False,
             notes := concat (map delta_content cs),
             requests := requests s @ [create_params (clinicalPrompt (transcript s))]\<rparr>"
    by (simp add: opened run_append run_gen_chunks gen_open_def gen_failure_def)
qed

text \<open>While a generation is loading, a click on the record button changes nothing.\<close>

lemma record_button_disabled_while_loading: "isLoading s \<Longrightarrow> record_button s = s"
  by (simp add: record_button_def)

subsection \<open>A permission request answered during a generation\<close>

text \<open>
  The record button is disabled while a generation is loading, but its test is made
  at the click, and \<^verbatim>\<open>startRecording\<close> does nothing until its permission request is
  answered. In \<open>generating_session\<close> a transcript is ready, the record button was
  clicked while nothing was loading, the generate button was clicked while the
  permission request was still open, and the stream has delivered the fragment
  \<^verbatim>\<open>Subjective: \<close>. The three facts below are what follows when the permission is
  granted at that moment.
\<close>

text \<open>
  C6 fails on the code. The rest of \<^verbatim>\<open>startRecording\<close> runs while the generation is
  loading and is not refused: it clears the transcript and the notes generated so
  far, replaces the status and turns recording on.
\<close>

theorem late_permission_starts_recording:
  "\<not> isLoading ready_session \<and> \<not> isRecording ready_session \<and>
   isLoading generating_session \<and>
   length (capture_requests generating_session) = 2 \<and>
   transcript generating_session = ''chest pain '' \<and>
   notes generating_session = ''Subjective: '' \<and>
   status generating_session = ''Generating clinical notes...'' \<and>
   isLoading (step (StartRecording NoFault) generating_session) \<and>
   isRecording (step (StartRecording NoFault) generating_session) \<and>
   transcript (step (StartRecording NoFault) generating_session) = '''' \<and>
   notes (step (StartRecording NoFault) generating_session) = '''' \<and>
   status (step (StartRecording NoFault) generating_session) = ''Recording in progress...''"
  by (simp add: ready_session_eval generating_session_eval stopped_session_eval
      startRecording_def start_timer_def)

text \<open>
  C3 fails on the code. The permission is granted after the first fragment; the
  stream then delivers the fragment \<^verbatim>\<open>patient reports chest pain.\<close> and ends. The run
  ends with the success status and the loading flag cleared, and the notes hold the
  second fragment only: the first one was dropped.
\<close>

theorem late_permission_drops_fragment:
  "notes (run [ClickRecord, StartRecording NoFault, OnResult chest_pain_event, ClickRecord,
               ClickRecord, ClickGenerate demo_credentials, GenChunk (Some ''Subjective: ''),
               StartRecording NoFault, GenChunk (Some ''patient reports chest pain.''),
               GenEndOfStream] (mount True)) = ''patient reports chest pain.'' \<and>
   status (run [ClickRecord, StartRecording NoFault, OnResult chest_pain_event, ClickRecord,
               ClickRecord, ClickGenerate demo_credentials, GenChunk (Some ''Subjective: ''),
               StartRecording NoFault, GenChunk (Some ''patient reports chest pain.''),
               GenEndOfStream] (mount True)) = ''Clinical notes generated successfully!'' \<and>
   \<not> isLoading (run [ClickRecord, StartRecording NoFault, OnResult chest_pain_event, ClickRecord,
               ClickRecord, ClickGenerate demo_credentials, GenChunk (Some ''Subjective: ''),
               StartRecording NoFault, GenChunk (Some ''patient reports chest pain.''),
               GenEndOfStream] (mount True))"
proof -
  have "run [ClickRecord, StartRecording NoFault, OnResult chest_pain_event, ClickRecord,
             ClickRecord, ClickGenerate demo_credentials, GenChunk (Some ''Subjective: ''),
             StartRecording NoFault, GenChunk (Some ''patient reports chest pain.''),
             GenEndOfStream] (mount True) =
        run [StartRecording NoFault, GenChunk (Some ''patient reports chest pain.''),
             GenEndOfStream] generating_session"
    by (simp add: generating_session_def ready_session_def)
  then show ?thesis
    by (simp add: generating_session_eval stopped_session_eval startRecording_def
        start_timer_def gen_chunk_def delta_content_def gen_success_def)
qed

text \<open>
  C4 fails on the code. The permission is granted after the first fragment; the
  stream then delivers the fragment \<^verbatim>\<open>patient\<close> and throws. The run ends with the error
  status and the loading flag cleared, and the notes hold the second fragment only,
  not the concatenation of the two fragments received before the error.
\<close>

theorem late_permission_loses_partial_notes:
  "notes (run [ClickRecord, StartRecording NoFault, OnResult chest_pain_event, ClickRecord,
               ClickRecord, ClickGenerate demo_credentials, GenChunk (Some ''Subjective: ''),
               StartRecording NoFault, GenChunk (Some ''patient''), GenThrows]
            (mount True)) = ''patient'' \<and>
   status (run [ClickRecord, StartRecording NoFault, OnResult chest_pain_event, ClickRecord,
               ClickRecord, ClickGenerate demo_credentials, GenChunk (Some ''Subjective: ''),
               StartRecording NoFault, GenChunk (Some ''patient''), GenThrows]
            (mount True)) =
     ''Error generating notes. Please check your API key and try again.'' \<and>
   \<not> isLoading (run [ClickRecord, StartRecording NoFault, OnResult chest_pain_event, ClickRecord,
               ClickRecord, ClickGenerate demo_credentials, GenChunk (Some ''Subjective: ''),
               StartRecording NoFault, GenChunk (Some ''patient''), GenThrows]
            (mount True))"
proof -
  have "run [ClickRecord, StartRecording NoFault, OnResult chest_pain_event, ClickRecord,
             ClickRecord, ClickGenerate demo_credentials, GenChunk (Some ''Subjective: ''),
             StartRecording NoFault, GenChunk (Some ''patient''), GenThrows] (mount True) =
        run [StartRecording NoFault, GenChunk (Some ''patient''), GenThrows]
          generating_session"
    by (simp add: generating_session_def ready_session_def)
  then show ?thesis
    by (simp add: generating_session_eval stopped_session_eval startRecording_def
        start_timer_def gen_chunk_def delta_content_def gen_failure_def)
qed

subsection \<open>Stopping a recording\<close>

lemma removeAll_only: "set xs \<subseteq> {a} \<Longrightarrow> removeAll a xs = []"
  by (induction xs) auto

text \<open>
  When the interval held in \<^verbatim>\<open>intervalRef\<close> is the only one registered,
  \<^verbatim>\<open>stopRecording\<close> on a recording recorder turns \<^verbatim>\<open>isRecording\<close> off and removes the
  interval; whatever events follow, short of a new start, the elapsed seconds stay as
  they were; and a second call changes nothing.
\<close>

lemma stopRecording_single_interval:
  assumes "mediaRecorderRef s = Some Recording"
    and "set (intervals s) \<subseteq> set_option (intervalRef s)"
    and "\<forall>e \<in> set evs. \<not> is_start e"
  shows "\<not> isRecording (stopRecording s) \<and>
         intervals (stopRecording s) = [] \<and>
         recordingTime (run evs (stopRecording s)) = recordingTime s \<and>
         stopRecording (stopRecording s) = stopRecording s"
proof -
  from assms(1) have off: "\<not> isRecording (stopRecording s)"
    by (simp add: stopRecording_def recognition_stop_def Let_def split: option.split)
  from assms(1) have again: "stopRecording (stopRecording s) = stopRecording s"
    by (simp add: stopRecording_def recognition_stop_def Let_def split: option.split)
  from assms(1,2) have none: "intervals (stopRecording s) = []"
    by (cases "intervalRef s")
      (auto simp: stopRecording_def recognition_stop_def Let_def removeAll_only
        split: option.split)
  from run_no_intervals [OF none assms(3)]
  have "recordingTime (run evs (stopRecording s)) = recordingTime s"
    by (simp add: stopRecording_frame)
  with off again none show ?thesis
    by simp
qed

text \<open>
  C5 fails on the code. In a browser without speech recognition, \<^verbatim>\<open>startRecording\<close> is
  called twice before either permission request is answered, and both are granted:
  the second run overwrites \<^verbatim>\<open>intervalRef\<close> without clearing the first interval. The
  session is recording; \<^verbatim>\<open>stopRecording\<close> turns \<^verbatim>\<open>isRecording\<close> off and clears the
  second interval only. The first interval is still registered, and its next callback
  advances the elapsed seconds from 0 to 1 after the stop.
\<close>

theorem first_interval_ticks_after_stop:
  "isRecording restarted_session \<and>
   intervals restarted_session = [TimerId 1, TimerId 2] \<and>
   intervalRef restarted_session = Some (TimerId 2) \<and>
   \<not> isRecording (stopRecording restarted_session) \<and>
   intervals (stopRecording restarted_session) = [TimerId 1] \<and>
   recordingTime (stopRecording restarted_session) = 0 \<and>
   recordingTime (tick (TimerId 1) (stopRecording restarted_session)) = 1"
  by (simp add: restarted_session_eval stopRecording_def recognition_stop_def tick_def)

subsection \<open>Starting a recording\<close>

text \<open>
  C8, as the specification states it, fails twice. In a browser without speech
  recognition the capture stream is obtained and the recording starts, but there is
  no recognizer to start. And when a recognizer exists and its \<^verbatim>\<open>start()\<close> throws, as
  it does while the previous recognition has not ended, the \<^verbatim>\<open>catch\<close> block is
  entered after \<^verbatim>\<open>isRecording\<close> was set and before the interval is created: the session
  is recording and nothing ticks.
\<close>

theorem startRecording_recognizer_not_started:
  "recognitionRef (startRecording NoFault (mount False)) = None \<and>
   \<not> isTranscribing (startRecording NoFault (mount False)) \<and>
   isRecording (startRecording NoFault (mount False)) \<and>
   isRecording (startRecording RecognitionStartThrows stopped_session) \<and>
   intervals (startRecording RecognitionStartThrows stopped_session) = [] \<and>
   intervalRef (startRecording RecognitionStartThrows stopped_session) = None"
  by (simp add: startRecording_def start_timer_def start_caught_def mount_def
      stopped_session_eval)

text \<open>
  C8, amended. In every state the mounted component can reach, when the capture
  stream is obtained and no later platform call of \<^verbatim>\<open>startRecording\<close> throws, the
  transcript and the notes are reset to empty and the elapsed seconds to zero, the
  recorder is recording, \<^verbatim>\<open>isRecording\<close> is set, and a new interval is registered and
  held in \<^verbatim>\<open>intervalRef\<close>. If the browser provides speech recognition, the recognizer,
  configured as continuous with interim results, is started and \<^verbatim>\<open>isTranscribing\<close> is
  set; if it does not, there is no recognizer and \<^verbatim>\<open>isTranscribing\<close> is unchanged.
\<close>

theorem startRecording_success:
  "transcript (startRecording NoFault (run evs (mount b))) = '''' \<and>
   notes (startRecording NoFault (run evs (mount b))) = '''' \<and>
   recordingTime (startRecording NoFault (run evs (mount b))) = 0 \<and>
   isRecording (startRecording NoFault (run evs (mount b))) \<and>
   mediaRecorderRef (startRecording NoFault (run evs (mount b))) = Some Recording \<and>
   status (startRecording NoFault (run evs (mount b))) = ''Recording in progress...'' \<and>
   intervalRef (startRecording NoFault (run evs (mount b))) =
     Some (TimerId (next_timer (run evs (mount b)))) \<and>
   intervals (startRecording NoFault (run evs (mount b))) =
     intervals (run evs (mount b)) @ [TimerId (next_timer (run evs (mount b)))] \<and>
   (b \<longrightarrow>
      recognitionRef (startRecording NoFault (run evs (mount b))) =
        Some \<lparr> continuous = True, interimResults = True, lang = ''en-US'', started = True \<rparr> \<and>
      isTranscribing (startRecording NoFault (run evs (mount b)))) \<and>
   (\<not> b \<longrightarrow>
      recognitionRef (startRecording NoFault (run evs (mount b))) = None \<and>
      isTranscribing (startRecording NoFault (run evs (mount b))) =
        isTranscribing (run evs (mount b)))"
proof -
  define s where "s = run evs (mount b)"
  have r: "recognitionRef s =
      (if b then Some \<lparr> continuous = True, interimResults = True, lang = ''en-US'',
                         started = started (the (recognitionRef s)) \<rparr>
       else None)"
    unfolding s_def by (rule recognitionRef_mounted)
  have "transcript (startRecording NoFault s) = '''' \<and>
        notes (startRecording NoFault s) = '''' \<and>
        recordingTime (startRecording NoFault s) = 0 \<and>
        isRecording (startRecording NoFault s) \<and>
        mediaRecorderRef (startRecording NoFault s) = Some Recording \<and>
        status (startRecording NoFault s) = ''Recording in progress...'' \<and>
        intervalRef (startRecording NoFault s) = Some (TimerId (next_timer s)) \<and>
        intervals (startRecording NoFault s) = intervals s @ [TimerId (next_timer s)]"
    by (simp add: startRecording_def start_timer_def Let_def split: option.split)
  moreover have "b \<longrightarrow>
      recognitionRef (startRecording NoFault s) =
        Some \<lparr> continuous = True, interimResults = True, lang = ''en-US'', started = True \<rparr> \<and>
      isTranscribing (startRecording NoFault s)"
  proof
    assume b
    with r obtain x where "recognitionRef s =
        Some \<lparr> continuous = True, interimResults = True, lang = ''en-US'', started = x \<rparr>"
      by simp
    then show "recognitionRef (startRecording NoFault s) =
        Some \<lparr> continuous = True, interimResults = True, lang = ''en-US'', started = True \<rparr> \<and>
      isTranscribing (startRecording NoFault s)"
      by (simp add: startRecording_def start_timer_def Let_def)
  qed
  moreover have "\<not> b \<longrightarrow>
      recognitionRef (startRecording NoFault s) = None \<and>
      isTranscribing (startRecording NoFault s) = isTranscribing s"
  proof
    assume "\<not> b"
    with r have "recognitionRef s = None"
      by simp
    then show "recognitionRef (startRecording NoFault s) = None \<and>
      isTranscribing (startRecording NoFault s) = isTranscribing s"
      by (simp add: startRecording_def start_timer_def Let_def)
  qed
  ultimately show ?thesis
    unfolding s_def by blast
qed

theorem startRecording_success_witness:
  "transcript (startRecording NoFault (run [Generate demo_credentials] (mount True))) = '''' \<and>
   recognitionRef (startRecording NoFault (run [Generate demo_credentials] (mount True))) =
     Some \<lparr> continuous = True, interimResults = True, lang = ''en-US'', started = True \<rparr> \<and>
   isTranscribing (startRecording NoFault (run [Generate demo_credentials] (mount True))) \<and>
   intervals (startRecording NoFault (run [] (mount False))) = [TimerId 1] \<and>
   recognitionRef (startRecording NoFault (run [] (mount False))) = None \<and>
   \<not> isTranscribing (startRecording NoFault (run [] (mount False)))"
  using startRecording_success [of "[Generate demo_credentials]" True]
    startRecording_success [of "[]" False]
  by (simp add: mount_def)

subsection \<open>The copied confirmation and its timeout\<close>

text \<open>
  C9, as the specification states it, fails: the callback of the timeout does not look
  at the status it replaces. The transcript is copied; within the two seconds the
  generation is started and sets the status to its progress message; then the timeout
  fires and the status is \<^verbatim>\<open>Ready\<close> while the generation is still loading.
\<close>

theorem ready_overwrites_later_status:
  "status copied_session = ''Transcript copied to clipboard!'' \<and>
   timeouts copied_session = [(TimerId 2, 2000)] \<and>
   status copied_then_generating = ''Generating clinical notes...'' \<and>
   status (timeout_fires (TimerId 2) copied_then_generating) = ''Ready'' \<and>
   isLoading (timeout_fires (TimerId 2) copied_then_generating)"
  by (simp add: copied_then_generating_eval copied_session_eval stopped_session_eval
      timeout_fires_def)

text \<open>
  C9, amended. After a successful \<^verbatim>\<open>copyToClipboard\<close> the status is the type followed by
  \<^verbatim>\<open> copied to clipboard!\<close>, and a timeout with a delay of 2000 milliseconds is pending.
  It stays pending whatever events happen before it fires, and when it fires the
  status becomes \<^verbatim>\<open>Ready\<close> unconditionally: a status set in the meantime is overwritten.
\<close>

theorem copied_status_becomes_ready:
  assumes "TimeoutFires (TimerId (next_timer s)) \<notin> set evs"
  shows "status (copyToClipboard content kind Written s) = kind @ '' copied to clipboard!'' \<and>
         (TimerId (next_timer s), 2000) \<in>
           set (timeouts (run evs (copyToClipboard content kind Written s))) \<and>
         status (timeout_fires (TimerId (next_timer s))
                   (run evs (copyToClipboard content kind Written s))) = ''Ready''"
proof -
  have "(TimerId (next_timer s), 2000) \<in> set (timeouts (copyToClipboard content kind Written s))"
    by (simp add: copyToClipboard_def)
  from run_keeps_timeout [OF this assms]
  have pending: "(TimerId (next_timer s), 2000) \<in>
      set (timeouts (run evs (copyToClipboard content kind Written s)))" .
  from timeout_fires_pending [OF pending] pending show ?thesis
    by (simp add: copyToClipboard_def)
qed

theorem copied_status_becomes_ready_witness:
  "status (copyToClipboard ''chest pain '' ''Transcript'' Written stopped_session) =
     ''Transcript copied to clipboard!'' \<and>
   status (run [OnError ''network'']
             (copyToClipboard ''chest pain '' ''Transcript'' Written stopped_session)) =
     ''Transcription error: network'' \<and>
   status (timeout_fires (TimerId 2)
             (run [OnError ''network'']
                (copyToClipboard ''chest pain '' ''Transcript'' Written stopped_session))) =
     ''Ready''"
proof -
  have n: "next_timer stopped_session = 2"
    by (simp add: stopped_session_eval)
  have h: "TimeoutFires (TimerId (next_timer stopped_session)) \<notin> set [OnError ''network'']"
    by simp
  have e: "status (run [OnError ''network'']
             (copyToClipboard ''chest pain '' ''Transcript'' Written stopped_session)) =
     ''Transcription error: network''"
    by (simp add: copyToClipboard_def onerror_def stopped_session_eval)
  from copied_status_becomes_ready [OF h, of "''chest pain ''" "''Transcript''"] n e
  show ?thesis
    by simp
qed

end
